theory Spec2Isabelle
  imports Main "HOL-Library.Word"
begin

unbundle bit_operations_syntax

section \<open>Constants and data model (abledoom.hpp)\<close>

definition PUSH_SCREEN_WIDTH :: int where
  "PUSH_SCREEN_WIDTH = 960"

definition PUSH_SCREEN_HEIGHT :: int where
  "PUSH_SCREEN_HEIGHT = 160"

definition PUSH_SCREEN_STRIDE :: int where
  "PUSH_SCREEN_STRIDE = 1024"

text \<open>The width of the Doom frame buffer; doomgeneric\_pushstandalone.cpp asserts
  statically that it is 320.\<close>

definition DOOMGENERIC_RESX :: int where
  "DOOMGENERIC_RESX = 320"

text \<open>\<^verbatim>\<open>struct DoomInputEvent { uint8_t key; bool pressed; }\<close>\<close>

record DoomInputEvent =
  key :: "8 word"
  pressed :: bool

text \<open>\<^verbatim>\<open>struct PadId { uint8_t x, y; }\<close>, \<^verbatim>\<open>using ButtonId = uint8_t\<close> and
  \<^verbatim>\<open>using ControlId = std::variant<PadId, ButtonId>\<close>.\<close>

datatype PadId = PadId (pad_x: "8 word") (pad_y: "8 word")

datatype ControlId = Pad PadId | Button "8 word"

text \<open>\<^verbatim>\<open>struct PushInputEvent { ControlId id; bool pressed; }\<close>\<close>

record PushInputEvent =
  input_id :: ControlId
  input_pressed :: bool

section \<open>Control-input decoder\<close>

text \<open>Pad Y coordinate (0 is the topmost row) to the MIDI note number of the row's first pad.\<close>

definition Y_TO_PAD_ROW_START :: "int list" where
  "Y_TO_PAD_ROW_START = [92, 84, 76, 68, 60, 52, 44, 36]"

definition isPad :: "8 word \<Rightarrow> bool" where
  "isPad noteNumber \<longleftrightarrow> noteNumber \<ge> 36 \<and> noteNumber \<le> 99"

text \<open>\<^verbatim>\<open>std::find_if\<close> over a list: the position of the first element that satisfies the
  predicate, the length of the list (the end iterator) when there is none.\<close>

fun find_if :: "('a \<Rightarrow> bool) \<Rightarrow> 'a list \<Rightarrow> nat" where
  "find_if P [] = 0"
| "find_if P (v # vs) = (if P v then 0 else Suc (find_if P vs))"

text \<open>The note number is promoted to \<^verbatim>\<open>int\<close> for the comparison and the subtraction; both
  components of the result are truncated to \<^verbatim>\<open>uint8_t\<close>.\<close>

definition noteNumberToPadCoordinate :: "8 word \<Rightarrow> 8 word \<times> 8 word" where
  "noteNumberToPadCoordinate noteNumber =
     (let iRowStart = find_if (\<lambda>value. uint noteNumber \<ge> value) Y_TO_PAD_ROW_START
      in if iRowStart \<noteq> length Y_TO_PAD_ROW_START
         then (word_of_int (uint noteNumber - Y_TO_PAD_ROW_START ! iRowStart),
               word_of_nat iRowStart)
         else (0, 0))"

text \<open>The lambda \<^verbatim>\<open>oEvent\<close> of \<^verbatim>\<open>PushHardware::onMessage\<close>, together with the length check
  before it: the event handed to the input callback, \<open>None\<close> when the message is dropped.\<close>

definition onMessage_oEvent :: "8 word list \<Rightarrow> PushInputEvent option" where
  "onMessage_oEvent pMessage =
     (if length pMessage \<noteq> 3 then None
      else
        let type = (pMessage ! 0) AND 0xF0;
            number = pMessage ! 1;
            value = pMessage ! 2
        in if type = 0x90 then
             (if isPad number
              then (case noteNumberToPadCoordinate number of
                      (x, y) \<Rightarrow> Some \<lparr>input_id = Pad (PadId x y), input_pressed = True\<rparr>)
              else None)
           else if type = 0x80 then
             (if isPad number
              then (case noteNumberToPadCoordinate number of
                      (x, y) \<Rightarrow> Some \<lparr>input_id = Pad (PadId x y), input_pressed = False\<rparr>)
              else None)
           else if type = 0xB0 then
             Some \<lparr>input_id = Button number, input_pressed = (value = 127)\<rparr>
           else None)"

text \<open>\<^verbatim>\<open>PushHardware::onMessage\<close>: the callback runs on the receiver's state exactly when
  an event was decoded.\<close>

definition onMessage :: "(PushInputEvent \<Rightarrow> 's \<Rightarrow> 's) \<Rightarrow> 8 word list \<Rightarrow> 's \<Rightarrow> 's" where
  "onMessage mInputCallback pMessage self =
     (case onMessage_oEvent pMessage of
        Some event \<Rightarrow> mInputCallback event self
      | None \<Rightarrow> self)"

text \<open>The high nibble of a status byte, as the protocol description names it.\<close>

definition high_nibble :: "8 word \<Rightarrow> 8 word" where
  "high_nibble b = drop_bit 4 b"

section \<open>Pixel conversion\<close>

text \<open>All intermediate values are \<^verbatim>\<open>uint32_t\<close>; the result is truncated to \<^verbatim>\<open>uint16_t\<close>.\<close>

definition toBGR565 :: "32 word \<Rightarrow> 16 word" where
  "toBGR565 color =
     (let r = drop_bit 16 (color AND 0x00FF0000);
          g = drop_bit 8 (color AND 0x0000FF00);
          b = color AND 0x000000FF
      in ucast (push_bit 8 (b AND 0xF8) OR push_bit 3 (g AND 0xFC) OR drop_bit 3 r))"

text \<open>The three colour bytes of a 24-bit RGB value and the three fields of a packed pixel.\<close>

definition red_byte :: "32 word \<Rightarrow> 8 word" where
  "red_byte color = ucast (drop_bit 16 color)"

definition green_byte :: "32 word \<Rightarrow> 8 word" where
  "green_byte color = ucast (drop_bit 8 color)"

definition blue_byte :: "32 word \<Rightarrow> 8 word" where
  "blue_byte color = ucast color"

definition blue_field :: "16 word \<Rightarrow> 16 word" where
  "blue_field p = drop_bit 11 p"

definition green_field :: "16 word \<Rightarrow> 16 word" where
  "green_field p = take_bit 6 (drop_bit 5 p)"

definition red_field :: "16 word \<Rightarrow> 16 word" where
  "red_field p = take_bit 5 p"

section \<open>The hardware facade and its display data\<close>

text \<open>Pointers are addresses, \<open>0\<close> is \<^verbatim>\<open>nullptr\<close>.\<close>

type_synonym ptr = nat

datatype libusb_transfer_status =
    LIBUSB_TRANSFER_COMPLETED
  | LIBUSB_TRANSFER_ERROR
  | LIBUSB_TRANSFER_TIMED_OUT
  | LIBUSB_TRANSFER_CANCELLED
  | LIBUSB_TRANSFER_STALL
  | LIBUSB_TRANSFER_NO_DEVICE
  | LIBUSB_TRANSFER_OVERFLOW

text \<open>The fields of \<^verbatim>\<open>libusb_transfer\<close> that the completion callback reads, with the
  address of the transfer object itself.\<close>

record libusb_transfer =
  transfer_addr :: ptr
  transfer_user_data :: ptr
  transfer_status :: libusb_transfer_status
  transfer_length :: int
  transfer_actual_length :: int

text \<open>\<^verbatim>\<open>struct PushHardware::DisplayData\<close>\<close>

record DisplayData =
  mpUsbDeviceHandle :: ptr
  mTransferFailed :: bool
  mDisplayError :: int
  mpHeaderTransfer :: ptr
  mpDataTransfer :: ptr
  mUsbTransferBuffer :: "8 word list"
  mTransferInProgress :: bool

text \<open>The data members of \<^verbatim>\<open>class PushHardware\<close> that the modelled operations touch.
  The two last fields record what left the object: every message handed to
  \<^verbatim>\<open>mpMidiOut->sendMessage\<close> and every transfer handed to \<^verbatim>\<open>libusb_submit_transfer\<close>,
  oldest first.\<close>

record PushHardware =
  mMessageBuffer :: "8 word list"
  mScreenBuffer :: "16 word list"
  mDisplayData :: DisplayData
  midi_sent :: "8 word list list"
  usb_submitted :: "ptr list"

text \<open>The exceptions thrown by the display path (\<^verbatim>\<open>throwLibUsbError\<close> with its code, and the
  \<^verbatim>\<open>runtime_error\<close> of a failed transfer), and the store outside the screen buffer that C++
  leaves undefined.\<close>

datatype error =
    LibUsbError int
  | DisplayUsbTransferFailed
  | OutOfBoundsWrite int

text \<open>The object as the constructor has it when it calls \<^verbatim>\<open>resetLEDs\<close>: the message buffer
  resized to three bytes, the display not yet initialised.\<close>

definition constructed :: PushHardware where
  "constructed =
     \<lparr>mMessageBuffer = [0, 0, 0],
      mScreenBuffer = [],
      mDisplayData =
        \<lparr>mpUsbDeviceHandle = 0, mTransferFailed = False, mDisplayError = 0,
         mpHeaderTransfer = 0, mpDataTransfer = 0, mUsbTransferBuffer = [],
         mTransferInProgress = False\<rparr>,
      midi_sent = [],
      usb_submitted = []\<rparr>"

section \<open>LED output driver\<close>

definition sendMessage :: "PushHardware \<Rightarrow> PushHardware" where
  "sendMessage self = self\<lparr>midi_sent := midi_sent self @ [mMessageBuffer self]\<rparr>"

definition setButtonLight :: "int \<Rightarrow> int \<Rightarrow> PushHardware \<Rightarrow> PushHardware" where
  "setButtonLight number value self =
     sendMessage
       (self\<lparr>mMessageBuffer :=
          (mMessageBuffer self)[0 := 0xB0, 1 := word_of_int number, 2 := word_of_int value]\<rparr>)"

text \<open>The note number that \<^verbatim>\<open>setPadLight\<close> computes first, an \<^verbatim>\<open>int\<close>. The definition is
  the code for a row \<open>y\<close> from 0 to 7, the rows that the decoder yields and that the reset
  loops over; for any other \<open>y\<close> the code reads outside \<^verbatim>\<open>Y_TO_PAD_ROW_START\<close>, which C++
  leaves undefined, and nothing below relies on the value here.\<close>

definition setPadLight_noteNumber :: "int \<Rightarrow> int \<Rightarrow> int" where
  "setPadLight_noteNumber x y = Y_TO_PAD_ROW_START ! nat y + x"

definition setPadLight :: "int \<Rightarrow> int \<Rightarrow> int \<Rightarrow> PushHardware \<Rightarrow> PushHardware" where
  "setPadLight x y value self =
     (let noteNumber = setPadLight_noteNumber x y
      in if value = 0
         then sendMessage
                (self\<lparr>mMessageBuffer :=
                   (mMessageBuffer self)[0 := 0x80, 1 := word_of_int noteNumber, 2 := 0]\<rparr>)
         else sendMessage
                (self\<lparr>mMessageBuffer :=
                   (mMessageBuffer self)
                     [0 := 0x90, 1 := word_of_int noteNumber, 2 := word_of_int value]\<rparr>))"

text \<open>The two overloads of \<^verbatim>\<open>setLight\<close>, chosen by the alternative of the control id.\<close>

fun setLight :: "ControlId \<Rightarrow> int \<Rightarrow> PushHardware \<Rightarrow> PushHardware" where
  "setLight (Pad pad) value self = setPadLight (uint (pad_x pad)) (uint (pad_y pad)) value self"
| "setLight (Button button) value self = setButtonLight (uint button) value self"

text \<open>The numbers that the loop of \<^verbatim>\<open>kAllButtons\<close> skips.\<close>

definition skipped :: "8 word \<Rightarrow> bool" where
  "skipped value \<longleftrightarrow> value \<in> {52, 53, 66, 67, 68, 97, 98, 99, 100, 101}"

text \<open>The loop that fills \<^verbatim>\<open>kAllButtons\<close>: \<open>value\<close> and \<open>index\<close> advance together on every
  iteration, and a skipped value stores nothing.\<close>

function kAllButtons_loop :: "8 word \<Rightarrow> nat \<Rightarrow> 8 word list \<Rightarrow> 8 word list" where
  "kAllButtons_loop value index result =
     (if value \<le> 119
      then kAllButtons_loop (value + 1) (index + 1)
             (if skipped value then result else result[index := value])
      else result)"
  by pat_completeness auto
termination
proof (relation "measure (\<lambda>(value, index, result). 120 - unat value)")
  show "wf (measure (\<lambda>(value, index, result). 120 - unat value))"
    by simp
next
  fix "value" :: "8 word" and index :: nat and result :: "8 word list"
  assume "value \<le> 119"
  then have "unat value \<le> 119"
    by (simp add: word_le_nat_alt)
  moreover from this have "unat (value + 1) = unat value + 1"
    by (simp add: unat_word_ariths)
  ultimately show "((value + 1, index + 1, if skipped value then result else result[index := value]),
          (value, index, result)) \<in> measure (\<lambda>(value, index, result). 120 - unat value)"
    by simp
qed

text \<open>\<^verbatim>\<open>std::array<uint8_t, 102> result{3, 9}\<close>: the remaining hundred elements start
  as zero.\<close>

definition kAllButtons :: "8 word list" where
  "kAllButtons = kAllButtons_loop 20 2 ([3, 9] @ replicate 100 0)"

definition resetLEDs :: "PushHardware \<Rightarrow> PushHardware" where
  "resetLEDs self =
     (let self1 = fold (\<lambda>button. setButtonLight (uint button) 0) kAllButtons self
      in fold (\<lambda>y. fold (\<lambda>x. setPadLight x y 0) [0..7]) [0..7] self1)"

text \<open>The button numbers that the reset is documented to switch off.\<close>

definition valid_button :: "8 word \<Rightarrow> bool" where
  "valid_button n \<longleftrightarrow> n \<in> {3, 9} \<or> (20 \<le> n \<and> n \<le> 119 \<and> \<not> skipped n)"

section \<open>Display transfer pipeline\<close>

text \<open>\<^verbatim>\<open>PUSH_SCREEN_SIZE_BYTES\<close>, a \<^verbatim>\<open>size_t\<close>.\<close>

definition PUSH_SCREEN_SIZE_BYTES :: nat where
  "PUSH_SCREEN_SIZE_BYTES = 160 * 1024 * 2"

text \<open>What libusb does during one call of \<^verbatim>\<open>submitScreen\<close>, which the program does not
  decide: the completion callbacks that \<^verbatim>\<open>libusb_handle_events_timeout\<close> runs, in order,
  each with the transfer pointer it passes (\<open>None\<close> is a null pointer), the value that call
  returns, and the value that \<^verbatim>\<open>libusb_submit_transfer\<close> returns for a transfer.\<close>

record usb_env =
  handle_events_callbacks :: "libusb_transfer option list"
  handle_events_result :: int
  submit_transfer_result :: "ptr \<Rightarrow> int"

text \<open>The completion callback. A non-null \<^verbatim>\<open>user_data\<close> points at the display data of the
  one hardware object, as \<^verbatim>\<open>initDisplay\<close> sets it.\<close>

definition onTransferFinished :: "libusb_transfer option \<Rightarrow> DisplayData \<Rightarrow> DisplayData" where
  "onTransferFinished transfer pData =
     (case transfer of
        None \<Rightarrow> pData
      | Some t \<Rightarrow>
          if transfer_user_data t = 0 then pData
          else if transfer_status t \<noteq> LIBUSB_TRANSFER_COMPLETED
                  \<or> transfer_length t \<noteq> transfer_actual_length t
          then pData\<lparr>mTransferFailed := True\<rparr>
          else if transfer_addr t = mpDataTransfer pData
          then pData\<lparr>mTransferInProgress := False\<rparr>
          else pData)"

text \<open>The result pairs the display data with the transfers handed to
  \<^verbatim>\<open>libusb_submit_transfer\<close> by this call.\<close>

definition submitDisplayFrameTransfer :: "(ptr \<Rightarrow> int) \<Rightarrow> DisplayData \<Rightarrow> DisplayData \<times> ptr list"
  where
  "submitDisplayFrameTransfer libusb_submit_transfer pData =
     (let result = libusb_submit_transfer (mpHeaderTransfer pData)
      in if result < 0
         then (pData\<lparr>mDisplayError := result\<rparr>, [mpHeaderTransfer pData])
         else
           let result' = libusb_submit_transfer (mpDataTransfer pData)
           in if result' < 0
              then (pData\<lparr>mDisplayError := result'\<rparr>,
                    [mpHeaderTransfer pData, mpDataTransfer pData])
              else (pData\<lparr>mTransferInProgress := True\<rparr>,
                    [mpHeaderTransfer pData, mpDataTransfer pData]))"

text \<open>The bytes of the screen buffer as \<^verbatim>\<open>memcpy\<close> reads them on the little-endian machines
  the program runs on, and \<^verbatim>\<open>memcpy\<close> of the first \<open>n\<close> bytes.\<close>

definition bytes_of_pixels :: "16 word list \<Rightarrow> 8 word list" where
  "bytes_of_pixels ps = concat (map (\<lambda>p. [ucast p, ucast (drop_bit 8 p)]) ps)"

definition memcpy :: "8 word list \<Rightarrow> 8 word list \<Rightarrow> nat \<Rightarrow> 8 word list" where
  "memcpy dest src n = take n src @ drop n dest"

text \<open>Every 32-bit word of the buffer is XORed with \<^verbatim>\<open>0xffe7f3e7\<close>; on the bytes, in
  little-endian order, that is the pattern \<^verbatim>\<open>e7 f3 e7 ff\<close> repeated.\<close>

definition applySignalShapingPattern :: "8 word list \<Rightarrow> 8 word list" where
  "applySignalShapingPattern pBuffer =
     map (\<lambda>(i, b). if i < 4 * (PUSH_SCREEN_SIZE_BYTES div 4)
                    then b XOR ([0xE7, 0xF3, 0xE7, 0xFF] ! (i mod 4))
                    else b)
       (enumerate 0 pBuffer)"

text \<open>\<^verbatim>\<open>PushHardware::submitScreen\<close>: the exception it throws, if any, and the object
  afterwards.\<close>

definition submitScreen :: "usb_env \<Rightarrow> PushHardware \<Rightarrow> error option \<times> PushHardware" where
  "submitScreen env self =
     (let d0 = mDisplayData self;
          pumped = \<not> mTransferFailed d0 \<and> mDisplayError d0 \<ge> 0;
          d1 = (if pumped then fold onTransferFinished (handle_events_callbacks env) d0 else d0);
          self1 = self\<lparr>mDisplayData := d1\<rparr>
      in if pumped \<and> handle_events_result env < 0
         then (Some (LibUsbError (handle_events_result env)), self1)
         else if mDisplayError d1 < 0
         then (Some (LibUsbError (mDisplayError d1)), self1)
         else if mTransferFailed d1
         then (Some DisplayUsbTransferFailed, self1)
         else if mTransferInProgress d1
         then (None, self1)
         else
           let buffer = applySignalShapingPattern
                          (memcpy (mUsbTransferBuffer d1) (bytes_of_pixels (mScreenBuffer self))
                             PUSH_SCREEN_SIZE_BYTES)
           in case submitDisplayFrameTransfer (submit_transfer_result env)
                     (d1\<lparr>mUsbTransferBuffer := buffer\<rparr>) of
                (d2, calls) \<Rightarrow>
                  (None, self\<lparr>mDisplayData := d2,
                              usb_submitted := usb_submitted self @ calls\<rparr>))"

text \<open>The pipeline has recorded a failure.\<close>

definition failed :: "DisplayData \<Rightarrow> bool" where
  "failed d \<longleftrightarrow> mTransferFailed d \<or> mDisplayError d < 0"

text \<open>The operations that touch the display data, and a run of them on the object.\<close>

datatype pipeline_op =
    SubmitScreen usb_env
  | TransferFinished "libusb_transfer option"
  | SubmitDisplayFrameTransfer "ptr \<Rightarrow> int"

fun pipeline_step :: "pipeline_op \<Rightarrow> PushHardware \<Rightarrow> PushHardware" where
  "pipeline_step (SubmitScreen env) self = snd (submitScreen env self)"
| "pipeline_step (TransferFinished transfer) self =
     self\<lparr>mDisplayData := onTransferFinished transfer (mDisplayData self)\<rparr>"
| "pipeline_step (SubmitDisplayFrameTransfer libusb_submit_transfer) self =
     (case submitDisplayFrameTransfer libusb_submit_transfer (mDisplayData self) of
        (d, calls) \<Rightarrow> self\<lparr>mDisplayData := d, usb_submitted := usb_submitted self @ calls\<rparr>)"

text \<open>A completion that \<^verbatim>\<open>onTransferFinished\<close> ignores or that reports the success of a
  transfer other than the data transfer.\<close>

definition quiet_completion :: "DisplayData \<Rightarrow> libusb_transfer option \<Rightarrow> bool" where
  "quiet_completion d transfer =
     (case transfer of
        None \<Rightarrow> True
      | Some t \<Rightarrow>
          transfer_user_data t = 0
          \<or> (transfer_status t = LIBUSB_TRANSFER_COMPLETED
              \<and> transfer_length t = transfer_actual_length t
              \<and> transfer_addr t \<noteq> mpDataTransfer d))"

section \<open>The converting blit\<close>

text \<open>The value of an \<^verbatim>\<open>int\<close> expression on the 32-bit two's-complement machine: C++ leaves
  signed overflow undefined, the hardware wraps around.\<close>

definition i32 :: "int \<Rightarrow> int" where
  "i32 k = signed_take_bit 31 k"

definition is_i32 :: "int \<Rightarrow> bool" where
  "is_i32 k \<longleftrightarrow> - (2 ^ 31) \<le> k \<and> k < 2 ^ 31"

text \<open>The stores of the two nested loops, in the order the loops make them: the index into
  \<^verbatim>\<open>mScreenBuffer\<close> and the pixel stored. The source buffer is the memory behind the pointer,
  read by offset.\<close>

definition copyToScreen_stores ::
  "(int \<Rightarrow> 32 word) \<Rightarrow> int \<Rightarrow> int \<Rightarrow> int \<Rightarrow> int \<Rightarrow> int \<Rightarrow> int \<Rightarrow> (int \<times> 16 word) list" where
  "copyToScreen_stores srcBuffer srcX srcY srcWidth srcHeight destX destY =
     (let srcWidth' = (if i32 (destX + srcWidth) \<ge> PUSH_SCREEN_WIDTH
                       then i32 (PUSH_SCREEN_WIDTH - destX) else srcWidth);
          srcHeight' = (if i32 (destY + srcHeight) \<ge> PUSH_SCREEN_HEIGHT
                        then i32 (PUSH_SCREEN_HEIGHT - destY) else srcHeight)
      in concat
           (map (\<lambda>y.
              map (\<lambda>x.
                (i32 (i32 (destX + x) + i32 (i32 (y + destY) * PUSH_SCREEN_STRIDE)),
                 toBGR565
                   (srcBuffer (i32 (i32 (x + srcX) + i32 (i32 (y + srcY) * DOOMGENERIC_RESX))))))
                [0..srcWidth' - 1])
              [0..srcHeight' - 1]))"

text \<open>A store into the vector: inside it the element is replaced, outside it the behaviour
  is undefined, which the model reports.\<close>

fun store_all :: "16 word list \<Rightarrow> (int \<times> 16 word) list \<Rightarrow> error + 16 word list" where
  "store_all buf [] = Inr buf"
| "store_all buf ((i, v) # stores) =
     (if 0 \<le> i \<and> i < int (length buf)
      then store_all (buf[nat i := v]) stores
      else Inl (OutOfBoundsWrite i))"

definition copyToScreen ::
  "(int \<Rightarrow> 32 word) \<Rightarrow> int \<Rightarrow> int \<Rightarrow> int \<Rightarrow> int \<Rightarrow> int \<Rightarrow> int \<Rightarrow> PushHardware
     \<Rightarrow> error + PushHardware" where
  "copyToScreen srcBuffer srcX srcY srcWidth srcHeight destX destY self =
     (case store_all (mScreenBuffer self)
             (copyToScreen_stores srcBuffer srcX srcY srcWidth srcHeight destX destY) of
        Inl e \<Rightarrow> Inl e
      | Inr buf \<Rightarrow> Inr (self\<lparr>mScreenBuffer := buf\<rparr>))"

section \<open>Control mapper\<close>

text \<open>The key codes of doomkeys.h that the mapping table uses. The header belongs to the
  game engine, so the codes are parameters of the model.\<close>

record doomkeys =
  KEY_FIRE :: int
  KEY_LALT :: int
  KEY_USE :: int
  KEY_RSHIFT :: int
  KEY_UPARROW :: int
  KEY_LEFTARROW :: int
  KEY_DOWNARROW :: int
  KEY_RIGHTARROW :: int
  KEY_ENTER :: int
  KEY_ESCAPE :: int
  KEY_F6 :: int
  KEY_F9 :: int

text \<open>\<^verbatim>\<open>struct InputMapping { ControlId id; uint8_t doomKey; std::optional<uint8_t> color; }\<close>\<close>

record InputMapping =
  mapping_id :: ControlId
  doomKey :: "8 word"
  color :: "8 word option"

definition INPUT_MAPPING_TABLE :: "doomkeys \<Rightarrow> InputMapping list" where
  "INPUT_MAPPING_TABLE k =
     [\<lparr>mapping_id = Pad (PadId 0 3), doomKey = word_of_int (KEY_FIRE k), color = None\<rparr>,
      \<lparr>mapping_id = Pad (PadId 1 3), doomKey = word_of_int (KEY_LALT k), color = None\<rparr>,
      \<lparr>mapping_id = Pad (PadId 2 3), doomKey = word_of_int (KEY_USE k), color = None\<rparr>,
      \<lparr>mapping_id = Pad (PadId 2 5), doomKey = word_of_int (KEY_RSHIFT k), color = None\<rparr>,
      \<lparr>mapping_id = Pad (PadId 6 2), doomKey = word_of_int (KEY_UPARROW k), color = None\<rparr>,
      \<lparr>mapping_id = Pad (PadId 5 3), doomKey = word_of_int (KEY_LEFTARROW k), color = None\<rparr>,
      \<lparr>mapping_id = Pad (PadId 6 3), doomKey = word_of_int (KEY_DOWNARROW k), color = None\<rparr>,
      \<lparr>mapping_id = Pad (PadId 7 3), doomKey = word_of_int (KEY_RIGHTARROW k), color = None\<rparr>,
      \<lparr>mapping_id = Button 91, doomKey = word_of_int (KEY_ENTER k), color = None\<rparr>,
      \<lparr>mapping_id = Button 33, doomKey = word_of_int (KEY_ESCAPE k), color = None\<rparr>,
      \<lparr>mapping_id = Button 46, doomKey = word_of_int (KEY_UPARROW k), color = None\<rparr>,
      \<lparr>mapping_id = Button 47, doomKey = word_of_int (KEY_DOWNARROW k), color = None\<rparr>,
      \<lparr>mapping_id = Button 82, doomKey = word_of_int (KEY_F6 k), color = None\<rparr>,
      \<lparr>mapping_id = Pad (PadId 0 0), doomKey = 0x31, color = Some 121\<rparr>,
      \<lparr>mapping_id = Pad (PadId 1 0), doomKey = 0x32, color = Some 121\<rparr>,
      \<lparr>mapping_id = Pad (PadId 2 0), doomKey = 0x33, color = Some 121\<rparr>,
      \<lparr>mapping_id = Pad (PadId 3 0), doomKey = 0x34, color = Some 121\<rparr>,
      \<lparr>mapping_id = Pad (PadId 4 0), doomKey = 0x35, color = Some 121\<rparr>,
      \<lparr>mapping_id = Pad (PadId 5 0), doomKey = 0x36, color = Some 121\<rparr>,
      \<lparr>mapping_id = Pad (PadId 6 0), doomKey = 0x37, color = Some 121\<rparr>]"

text \<open>The members of \<^verbatim>\<open>class AbleDoom\<close> that \<^verbatim>\<open>onInput\<close> touches.\<close>

record AbleDoom =
  mEventQueue :: "DoomInputEvent list"
  mShiftHeld :: bool

definition onInput :: "doomkeys \<Rightarrow> PushInputEvent \<Rightarrow> AbleDoom \<Rightarrow> AbleDoom" where
  "onInput k input self =
     (let self1 = (if input_id input = Button 49
                   then self\<lparr>mShiftHeld := input_pressed input\<rparr> else self);
          iMapping = find_if (\<lambda>mapping. mapping_id mapping = input_id input)
                       (INPUT_MAPPING_TABLE k)
      in if iMapping \<noteq> length (INPUT_MAPPING_TABLE k)
         then
           let doomKey' = doomKey (INPUT_MAPPING_TABLE k ! iMapping);
               key' = (if uint doomKey' = KEY_F6 k \<and> mShiftHeld self1
                       then word_of_int (KEY_F9 k) else doomKey')
           in self1\<lparr>mEventQueue :=
                       mEventQueue self1 @ [\<lparr>key = key', pressed = input_pressed input\<rparr>]\<rparr>
         else self1)"


section \<open>Sample objects\<close>

text \<open>The object once \<^verbatim>\<open>initDisplay\<close> has run: both buffers allocated, the device handle and
  the two transfers at three distinct non-null addresses.\<close>

definition display_ready :: PushHardware where
  "display_ready =
     \<lparr>mMessageBuffer = [0, 0, 0],
      mScreenBuffer = replicate 163840 0,
      mDisplayData =
        \<lparr>mpUsbDeviceHandle = 1, mTransferFailed = False, mDisplayError = 0,
         mpHeaderTransfer = 2, mpDataTransfer = 3, mUsbTransferBuffer = replicate 327680 0,
         mTransferInProgress = False\<rparr>,
      midi_sent = [],
      usb_submitted = []\<rparr>"

text \<open>The same object with a frame in flight.\<close>

definition in_flight :: PushHardware where
  "in_flight =
     display_ready\<lparr>mDisplayData := (mDisplayData display_ready)\<lparr>mTransferInProgress := True\<rparr>\<rparr>"

text \<open>Completions of its two transfers: the header sent, the payload sent, the payload
  cut short.\<close>

definition header_done :: libusb_transfer where
  "header_done =
     \<lparr>transfer_addr = 2, transfer_user_data = 4,
      transfer_status = LIBUSB_TRANSFER_COMPLETED,
      transfer_length = 16, transfer_actual_length = 16\<rparr>"

definition data_done :: libusb_transfer where
  "data_done =
     \<lparr>transfer_addr = 3, transfer_user_data = 4,
      transfer_status = LIBUSB_TRANSFER_COMPLETED,
      transfer_length = 327680, transfer_actual_length = 327680\<rparr>"

definition data_short :: libusb_transfer where
  "data_short =
     \<lparr>transfer_addr = 3, transfer_user_data = 4,
      transfer_status = LIBUSB_TRANSFER_COMPLETED,
      transfer_length = 327680, transfer_actual_length = 1024\<rparr>"

text \<open>A call during which libusb runs the given callbacks, reports no error and accepts
  every submission.\<close>

definition pump_of :: "libusb_transfer option list \<Rightarrow> usb_env" where
  "pump_of callbacks =
     \<lparr>handle_events_callbacks = callbacks, handle_events_result = 0,
      submit_transfer_result = (\<lambda>transfer. 0)\<rparr>"

section \<open>Facts about bytes\<close>

lemma bit_index_8:
  "j < LENGTH(8) \<Longrightarrow> j \<in> {7, 6, 5, 4, 3, 2, 1, 0 :: nat}"
  by simp arith

lemma bit_index_16:
  "j < LENGTH(16) \<Longrightarrow> j \<in> {15, 14, 13, 12, 11, 10, 9, 8, 7, 6, 5, 4, 3, 2, 1, 0 :: nat}"
  by simp arith

lemma byte_eq_bits:
  "(a :: 8 word) = b \<longleftrightarrow>
     bit a 0 = bit b 0 \<and> bit a 1 = bit b 1 \<and> bit a 2 = bit b 2 \<and> bit a 3 = bit b 3 \<and>
     bit a 4 = bit b 4 \<and> bit a 5 = bit b 5 \<and> bit a 6 = bit b 6 \<and> bit a 7 = bit b 7"
  (is "_ \<longleftrightarrow> ?bits")
proof
  assume "a = b"
  then show ?bits by simp
next
  assume bits: ?bits
  show "a = b"
  proof (rule bit_word_eqI)
    fix n
    assume "n < LENGTH(8)"
    then have "n \<in> {7, 6, 5, 4, 3, 2, 1, 0}"
      by (rule bit_index_8)
    with bits show "bit a n = bit b n" by auto
  qed
qed

lemma type_note_on: "(b :: 8 word) AND 0xF0 = 0x90 \<longleftrightarrow> high_nibble b = 0x9"
  by (auto simp add: high_nibble_def byte_eq_bits bit_simps dest: bit_imp_le_length)

lemma type_note_off: "(b :: 8 word) AND 0xF0 = 0x80 \<longleftrightarrow> high_nibble b = 0x8"
  by (auto simp add: high_nibble_def byte_eq_bits bit_simps dest: bit_imp_le_length)

lemma type_control_change: "(b :: 8 word) AND 0xF0 = 0xB0 \<longleftrightarrow> high_nibble b = 0xB"
  by (auto simp add: high_nibble_def byte_eq_bits bit_simps dest: bit_imp_le_length)

section \<open>The decoder and the LED driver agree on pad numbers\<close>

text \<open>
  Claim C4. For every note number \<open>n\<close> from 36 to 99, decoding \<open>n\<close> to a pad coordinate
  with \<^verbatim>\<open>noteNumberToPadCoordinate\<close> and computing the note number of that coordinate the
  way \<^verbatim>\<open>setPadLight\<close> does (\<^verbatim>\<open>Y_TO_PAD_ROW_START[y] + x\<close>) gives \<open>n\<close> back.
\<close>

theorem pad_note_roundtrip:
  assumes "36 \<le> n" and "n \<le> 99"
  shows "(case noteNumberToPadCoordinate n of
            (x, y) \<Rightarrow> setPadLight_noteNumber (uint x) (uint y)) = uint n"
proof -
  from assms have range: "36 \<le> uint n" "uint n \<le> 99"
    by (simp_all add: word_le_def)
  then show ?thesis
    apply (simp add: noteNumberToPadCoordinate_def setPadLight_noteNumber_def
        Y_TO_PAD_ROW_START_def Let_def)
    apply (auto simp add: uint_word_of_int)
           apply uint_arith+
    done
qed

theorem pad_note_roundtrip_witness:
  "(case noteNumberToPadCoordinate 36 of
      (x, y) \<Rightarrow> setPadLight_noteNumber (uint x) (uint y)) = 36"
  using pad_note_roundtrip [of 36] by simp

section \<open>Which messages the decoder turns into events\<close>

text \<open>
  Claim C5. The decoder produces an event, and so invokes the input callback, if and only
  if the message is exactly 3 bytes long, the high nibble of byte 0 is 0x8, 0x9 or 0xB, and,
  when that nibble is 0x8 or 0x9, byte 1 lies in the pad window 36..99. A decoded event
  reaches the callback: \<^verbatim>\<open>onMessage\<close> is then the callback applied to that event. Every
  other message is dropped: no event, the callback does not run, and the receiver is left
  as it was.
\<close>

theorem onMessage_event_iff:
  "(onMessage_oEvent m \<noteq> None \<longleftrightarrow>
      length m = 3 \<and> high_nibble (m ! 0) \<in> {0x8, 0x9, 0xB} \<and>
      (high_nibble (m ! 0) \<in> {0x8, 0x9} \<longrightarrow> 36 \<le> m ! 1 \<and> m ! 1 \<le> 99))
   \<and> (\<forall>event. onMessage_oEvent m = Some event \<longrightarrow>
         onMessage mInputCallback m self = mInputCallback event self)
   \<and> (onMessage_oEvent m = None \<longrightarrow> onMessage mInputCallback m self = self)"
proof (intro conjI)
  show "onMessage_oEvent m \<noteq> None \<longleftrightarrow>
      length m = 3 \<and> high_nibble (m ! 0) \<in> {0x8, 0x9, 0xB} \<and>
      (high_nibble (m ! 0) \<in> {0x8, 0x9} \<longrightarrow> 36 \<le> m ! 1 \<and> m ! 1 \<le> 99)"
    by (auto simp add: onMessage_oEvent_def Let_def isPad_def
        type_note_on type_note_off type_control_change split: prod.splits)
next
  show "\<forall>event. onMessage_oEvent m = Some event \<longrightarrow>
      onMessage mInputCallback m self = mInputCallback event self"
    by (simp add: onMessage_def)
next
  show "onMessage_oEvent m = None \<longrightarrow> onMessage mInputCallback m self = self"
    by (simp add: onMessage_def)
qed

text \<open>At concrete messages, with a callback that records the events it is given: a note-on
  of pad note 36 reaches the callback as one event; a note-on outside the pad window, a
  message of another kind and a message of two bytes reach it not at all.\<close>

theorem onMessage_event_iff_witness:
  "onMessage (\<lambda>event self. self @ [event]) [0x90, 36, 100] []
     = [\<lparr>input_id = Pad (PadId 0 7), input_pressed = True\<rparr>]
   \<and> onMessage (\<lambda>event self. self @ [event]) [0x90, 35, 100] [] = []
   \<and> onMessage (\<lambda>event self. self @ [event]) [0xA0, 36, 100] [] = []
   \<and> onMessage (\<lambda>event self. self @ [event]) [0x90, 36] [] = []"
proof -
  have decoded: "onMessage_oEvent [0x90, 36, 100]
      = Some \<lparr>input_id = Pad (PadId 0 7), input_pressed = True\<rparr>"
    by (simp add: onMessage_oEvent_def isPad_def noteNumberToPadCoordinate_def
        Y_TO_PAD_ROW_START_def)
  show ?thesis
    using onMessage_event_iff [of "[0x90, 36, 100]" "\<lambda>event self. self @ [event]" "[]"]
      onMessage_event_iff [of "[0x90, 35, 100]" "\<lambda>event self. self @ [event]" "[]"]
      onMessage_event_iff [of "[0xA0, 36, 100]" "\<lambda>event self. self @ [event]" "[]"]
      onMessage_event_iff [of "[0x90, 36]" "\<lambda>event self. self @ [event]" "[]"]
    by (simp add: high_nibble_def decoded)
qed

section \<open>Control changes are button events\<close>

text \<open>
  Claim C6. Every 3-byte message whose byte 0 has the high nibble 0xB is decoded to a
  Button event whose id is byte 1 and which is pressed exactly when byte 2 is 127. The
  message \<^verbatim>\<open>{0xB0, 49, 127}\<close> gives a pressed Button 49, and \<^verbatim>\<open>{0x90, 36, 100}\<close> gives a
  pressed Pad with x = 0 and y = 7.
\<close>

theorem control_change_is_button:
  "(high_nibble b0 = 0xB \<longrightarrow>
      onMessage_oEvent [b0, b1, b2]
        = Some \<lparr>input_id = Button b1, input_pressed = (b2 = 127)\<rparr>)
   \<and> onMessage_oEvent [0xB0, 49, 127] = Some \<lparr>input_id = Button 49, input_pressed = True\<rparr>
   \<and> onMessage_oEvent [0x90, 36, 100]
        = Some \<lparr>input_id = Pad (PadId 0 7), input_pressed = True\<rparr>"
proof (intro conjI impI)
  assume "high_nibble b0 = 0xB"
  then show "onMessage_oEvent [b0, b1, b2]
      = Some \<lparr>input_id = Button b1, input_pressed = (b2 = 127)\<rparr>"
    by (simp add: onMessage_oEvent_def Let_def type_note_on type_note_off type_control_change)
next
  show "onMessage_oEvent [0xB0, 49, 127] = Some \<lparr>input_id = Button 49, input_pressed = True\<rparr>"
    by (simp add: onMessage_oEvent_def)
next
  show "onMessage_oEvent [0x90, 36, 100]
      = Some \<lparr>input_id = Pad (PadId 0 7), input_pressed = True\<rparr>"
    by (simp add: onMessage_oEvent_def isPad_def noteNumberToPadCoordinate_def
        Y_TO_PAD_ROW_START_def)
qed

theorem control_change_is_button_witness:
  "onMessage_oEvent [0xB3, 82, 0] = Some \<lparr>input_id = Button 82, input_pressed = False\<rparr>"
  using control_change_is_button [of "0xB3" 82 0] by (simp add: high_nibble_def)

section \<open>The packed pixel\<close>

text \<open>
  Claim C7. \<^verbatim>\<open>toBGR565\<close> is a total function of the colour alone that packs a 24-bit RGB
  colour into 16 bits: bits 15..11 are the top 5 bits of the blue byte, bits 10..5 the top 6
  bits of the green byte and bits 4..0 the top 5 bits of the red byte, the lower bits of each
  byte being cut off. So 0xFF0000 has the red field 0x1F and the other fields 0, 0x00FF00 the
  green field 0x3F and the others 0, and 0x0000FF the blue field 0x1F and the others 0.
\<close>

theorem toBGR565_fields:
  "blue_field (toBGR565 c) = ucast (drop_bit 3 (blue_byte c))
   \<and> green_field (toBGR565 c) = ucast (drop_bit 2 (green_byte c))
   \<and> red_field (toBGR565 c) = ucast (drop_bit 3 (red_byte c))
   \<and> red_field (toBGR565 0xFF0000) = 0x1F
   \<and> green_field (toBGR565 0xFF0000) = 0 \<and> blue_field (toBGR565 0xFF0000) = 0
   \<and> green_field (toBGR565 0x00FF00) = 0x3F
   \<and> red_field (toBGR565 0x00FF00) = 0 \<and> blue_field (toBGR565 0x00FF00) = 0
   \<and> blue_field (toBGR565 0x0000FF) = 0x1F
   \<and> red_field (toBGR565 0x0000FF) = 0 \<and> green_field (toBGR565 0x0000FF) = 0"
proof -
  have blue: "blue_field (toBGR565 c) = ucast (drop_bit 3 (blue_byte c))"
    unfolding toBGR565_def blue_field_def blue_byte_def Let_def
    apply (rule bit_word_eqI)
    subgoal for n
      apply (drule bit_index_16)
      apply (elim insertE emptyE; simp add: bit_simps)
      done
    done
  have green: "green_field (toBGR565 c) = ucast (drop_bit 2 (green_byte c))"
    unfolding toBGR565_def green_field_def green_byte_def Let_def
    apply (rule bit_word_eqI)
    subgoal for n
      apply (drule bit_index_16)
      apply (elim insertE emptyE; simp add: bit_simps)
      done
    done
  have red: "red_field (toBGR565 c) = ucast (drop_bit 3 (red_byte c))"
    unfolding toBGR565_def red_field_def red_byte_def Let_def
    apply (rule bit_word_eqI)
    subgoal for n
      apply (drule bit_index_16)
      apply (elim insertE emptyE; simp add: bit_simps)
      done
    done
  have samples:
    "toBGR565 0xFF0000 = 0x001F" "toBGR565 0x00FF00 = 0x07E0" "toBGR565 0x0000FF = 0xF800"
    by (simp_all add: toBGR565_def Let_def)
  have fields:
    "red_field 0x001F = 0x1F" "green_field 0x001F = 0" "blue_field 0x001F = 0"
    "green_field 0x07E0 = 0x3F" "red_field 0x07E0 = 0" "blue_field 0x07E0 = 0"
    "blue_field 0xF800 = 0x1F" "red_field 0xF800 = 0" "green_field 0xF800 = 0"
    by (simp_all add: red_field_def green_field_def blue_field_def)
  from blue green red show ?thesis
    unfolding samples by (simp only: fields simp_thms)
qed

theorem toBGR565_fields_witness:
  "blue_field (toBGR565 0x123456) = 0x0A \<and> green_field (toBGR565 0x123456) = 0x0D
   \<and> red_field (toBGR565 0x123456) = 0x02"
  using toBGR565_fields [of "0x123456"]
  by (simp add: blue_byte_def green_byte_def red_byte_def)

section \<open>What the LED reset sends\<close>

text \<open>The array \<^verbatim>\<open>kAllButtons\<close> in closed form: a skipped value leaves the zero the array
  started with at its index.\<close>

lemma kAllButtons_closed_form:
  "kAllButtons = [3, 9] @ map (\<lambda>v. if skipped v then 0 else v) (map of_nat [20..<120])"
  by code_simp

lemma resetLEDs_message_count: "length (midi_sent (resetLEDs constructed)) = 166"
  by code_simp

text \<open>The non-zero entries of the array are 92 distinct valid button numbers.\<close>

lemma kAllButtons_nonzero:
  "length (filter (\<lambda>b. b \<noteq> 0) kAllButtons) = 92
   \<and> list_all valid_button (filter (\<lambda>b. b \<noteq> 0) kAllButtons)
   \<and> distinct (filter (\<lambda>b. b \<noteq> 0) kAllButtons)"
  by code_simp

text \<open>The note-off messages go to 64 distinct pad notes.\<close>

lemma resetLEDs_pads:
  "length (filter (\<lambda>m. m ! 0 = 0x80) (midi_sent (resetLEDs constructed))) = 64
   \<and> list_all (\<lambda>m. isPad (m ! 1) \<and> m ! 2 = 0)
        (filter (\<lambda>m. m ! 0 = 0x80) (midi_sent (resetLEDs constructed)))
   \<and> distinct (filter (\<lambda>m. m ! 0 = 0x80) (midi_sent (resetLEDs constructed)))"
  by code_simp

text \<open>
  Claim C1. The LED reset is to send exactly one button off-command for each valid button
  number (3, 9 and every number from 20 to 119 outside the exclusion list) and 64 pad
  off-commands, each once, and no off-command for any other button number. The code sends
  the off-command \<^verbatim>\<open>{0xB0, 0, 0}\<close> of button 0 ten times, once for each skipped number, and
  0 is not a valid button number.
\<close>

theorem resetLEDs_button_zero:
  "count_list (midi_sent (resetLEDs constructed)) [0xB0, 0, 0] = 10 \<and> \<not> valid_button 0"
proof
  show "count_list (midi_sent (resetLEDs constructed)) [0xB0, 0, 0] = 10"
    by code_simp
next
  show "\<not> valid_button 0"
    by (simp add: valid_button_def)
qed

section \<open>The display pipeline\<close>

lemma fold_quiet_completions:
  "\<forall>t \<in> set ts. quiet_completion d t \<Longrightarrow> fold onTransferFinished ts d = d"
proof (induction ts)
  case Nil
  then show ?case by simp
next
  case (Cons t ts)
  then have "onTransferFinished t d = d"
    by (auto simp add: quiet_completion_def onTransferFinished_def split: option.splits)
  with Cons show ?case by simp
qed

lemma onTransferFinished_failed: "failed d \<Longrightarrow> failed (onTransferFinished t d)"
  by (auto simp add: failed_def onTransferFinished_def split: option.splits)

lemma submitDisplayFrameTransfer_failed:
  "failed d \<Longrightarrow> failed (fst (submitDisplayFrameTransfer f d))"
  by (auto simp add: failed_def submitDisplayFrameTransfer_def Let_def)

lemma submitScreen_failed_state:
  "failed (mDisplayData self) \<Longrightarrow> snd (submitScreen env self) = self"
  by (auto simp add: failed_def submitScreen_def Let_def)

lemma submitScreen_failed_raises:
  "failed (mDisplayData self) \<Longrightarrow>
     fst (submitScreen env self) =
       Some (if mDisplayError (mDisplayData self) < 0
             then LibUsbError (mDisplayError (mDisplayData self))
             else DisplayUsbTransferFailed)"
  by (auto simp add: failed_def submitScreen_def Let_def)

lemma pipeline_step_failed:
  assumes "failed (mDisplayData self)"
  shows "failed (mDisplayData (pipeline_step op self))"
proof (cases op)
  case (SubmitScreen env)
  with assms show ?thesis by (simp add: submitScreen_failed_state)
next
  case (TransferFinished t)
  with assms show ?thesis by (simp add: onTransferFinished_failed)
next
  case (SubmitDisplayFrameTransfer f)
  from assms have "failed (fst (submitDisplayFrameTransfer f (mDisplayData self)))"
    by (rule submitDisplayFrameTransfer_failed)
  with SubmitDisplayFrameTransfer show ?thesis by (auto split: prod.splits)
qed

lemma pipeline_run_failed:
  "failed (mDisplayData self) \<Longrightarrow> failed (mDisplayData (fold pipeline_step ops self))"
  by (induction ops arbitrary: self) (auto simp add: pipeline_step_failed)

text \<open>How a failure gets recorded: by a completion that is not a full success, and by a
  submission that libusb refuses.\<close>

lemma onTransferFinished_records_failure:
  "transfer_user_data t \<noteq> 0 \<Longrightarrow>
   transfer_status t \<noteq> LIBUSB_TRANSFER_COMPLETED \<or> transfer_length t \<noteq> transfer_actual_length t \<Longrightarrow>
   mTransferFailed (onTransferFinished (Some t) d)"
  by (auto simp add: onTransferFinished_def)

lemma submitDisplayFrameTransfer_records_failure:
  "f (mpHeaderTransfer d) < 0 \<or> f (mpDataTransfer d) < 0 \<Longrightarrow>
   mDisplayError (fst (submitDisplayFrameTransfer f d)) < 0"
  by (auto simp add: submitDisplayFrameTransfer_def Let_def)

text \<open>
  Claim C2, as stated: in every state with a transfer in flight and no failure or error
  recorded, \<^verbatim>\<open>submitScreen\<close> is a no-op. It is not: \<^verbatim>\<open>submitScreen\<close> first lets libusb run
  the pending completion callbacks, and when the payload's completion arrives in that very
  call the frame is copied and two new transfers are submitted.
\<close>

theorem submitScreen_in_flight_counterexample:
  "mTransferInProgress (mDisplayData in_flight)
   \<and> \<not> mTransferFailed (mDisplayData in_flight)
   \<and> mDisplayError (mDisplayData in_flight) = 0
   \<and> usb_submitted in_flight = []
   \<and> usb_submitted (snd (submitScreen (pump_of [Some data_done]) in_flight)) = [2, 3]"
  by (simp add: submitScreen_def in_flight_def display_ready_def pump_of_def data_done_def
      onTransferFinished_def submitDisplayFrameTransfer_def Let_def)

text \<open>
  Claim C2, amended. When a transfer is in flight, no failure or error is recorded, and the
  event handling that \<^verbatim>\<open>submitScreen\<close> runs first reports no error and delivers no
  completion other than ignored ones and successes of transfers that are not the data
  transfer, then \<^verbatim>\<open>submitScreen\<close> throws nothing and leaves the whole object as it was:
  the flags, the error code, the USB transfer buffer, and the list of submitted transfers.
\<close>

theorem submitScreen_in_flight_noop:
  assumes "mTransferInProgress (mDisplayData self)"
    and "\<not> mTransferFailed (mDisplayData self)"
    and "mDisplayError (mDisplayData self) \<ge> 0"
    and "handle_events_result env \<ge> 0"
    and "\<forall>t \<in> set (handle_events_callbacks env). quiet_completion (mDisplayData self) t"
  shows "submitScreen env self = (None, self)"
  using assms by (simp add: submitScreen_def Let_def fold_quiet_completions)

theorem submitScreen_in_flight_noop_witness:
  "submitScreen (pump_of [Some header_done]) in_flight = (None, in_flight)"
  using submitScreen_in_flight_noop [of in_flight "pump_of [Some header_done]"]
  by (simp add: in_flight_def display_ready_def pump_of_def header_done_def
      quiet_completion_def)

text \<open>
  Claim C3. Failure is sticky and terminal. Once a failure is recorded, that is once
  \<^verbatim>\<open>mTransferFailed\<close> is set or \<^verbatim>\<open>mDisplayError\<close> is negative, it stays recorded through every
  run of pipeline operations, and \<^verbatim>\<open>submitScreen\<close> then throws: the libusb error of the
  recorded code when the code is negative, the transfer-failed error otherwise.
\<close>

theorem failure_is_sticky:
  assumes "failed (mDisplayData self)"
  shows "failed (mDisplayData (fold pipeline_step ops self))
    \<and> fst (submitScreen env (fold pipeline_step ops self)) =
        Some (if mDisplayError (mDisplayData (fold pipeline_step ops self)) < 0
              then LibUsbError (mDisplayError (mDisplayData (fold pipeline_step ops self)))
              else DisplayUsbTransferFailed)"
proof -
  from assms have "failed (mDisplayData (fold pipeline_step ops self))"
    by (rule pipeline_run_failed)
  then show ?thesis
    by (simp add: submitScreen_failed_raises)
qed

theorem failure_is_sticky_witness:
  "failed (mDisplayData (pipeline_step (TransferFinished (Some data_short)) in_flight))
   \<and> fst (submitScreen (pump_of [Some data_done])
        (fold pipeline_step
           [SubmitScreen (pump_of [Some data_done]), TransferFinished (Some data_done)]
           (pipeline_step (TransferFinished (Some data_short)) in_flight)))
      = Some DisplayUsbTransferFailed"
  using failure_is_sticky
    [of "pipeline_step (TransferFinished (Some data_short)) in_flight"
        "[SubmitScreen (pump_of [Some data_done]), TransferFinished (Some data_done)]"
        "pump_of [Some data_done]"]
  by (simp add: failed_def in_flight_def display_ready_def data_short_def data_done_def
      onTransferFinished_def submitScreen_def pump_of_def Let_def)

text \<open>
  Claim C10. Only the completion of the data transfer returns the pipeline to idle. If a
  completion clears the in-flight flag, it is a successful, full-length completion of the
  data transfer. A successful completion of the header transfer, which is another transfer
  than the data transfer, changes nothing, so the pipeline stays in flight. A completion
  that is not a full success sets the failed flag and changes nothing else, so it does not
  clear the in-flight flag either.
\<close>

theorem only_data_completion_clears_in_flight:
  "(mTransferInProgress d \<and> \<not> mTransferInProgress (onTransferFinished transfer d) \<longrightarrow>
      (\<exists>t. transfer = Some t \<and> transfer_addr t = mpDataTransfer d
          \<and> transfer_status t = LIBUSB_TRANSFER_COMPLETED
          \<and> transfer_length t = transfer_actual_length t))
   \<and> (transfer_addr h = mpHeaderTransfer d \<and> mpHeaderTransfer d \<noteq> mpDataTransfer d
        \<and> transfer_status h = LIBUSB_TRANSFER_COMPLETED
        \<and> transfer_length h = transfer_actual_length h \<longrightarrow>
      onTransferFinished (Some h) d = d)
   \<and> (transfer_user_data e \<noteq> 0
        \<and> (transfer_status e \<noteq> LIBUSB_TRANSFER_COMPLETED
            \<or> transfer_length e \<noteq> transfer_actual_length e) \<longrightarrow>
      onTransferFinished (Some e) d = d\<lparr>mTransferFailed := True\<rparr>)"
  by (auto simp add: onTransferFinished_def split: option.splits if_splits)

theorem only_data_completion_clears_in_flight_witness:
  "\<not> mTransferInProgress (onTransferFinished (Some data_done) (mDisplayData in_flight))
   \<and> onTransferFinished (Some header_done) (mDisplayData in_flight) = mDisplayData in_flight
   \<and> onTransferFinished (Some data_short) (mDisplayData in_flight)
       = (mDisplayData in_flight)\<lparr>mTransferFailed := True\<rparr>"
  using only_data_completion_clears_in_flight
    [of "mDisplayData in_flight" "Some data_done" header_done data_short]
  by (simp add: in_flight_def display_ready_def data_done_def header_done_def data_short_def
      onTransferFinished_def)

section \<open>The modifier chord of the control mapper\<close>

text \<open>Button 49, the modifier, has no entry in the mapping table.\<close>

lemma modifier_not_mapped:
  "find_if (\<lambda>mapping. mapping_id mapping = Button 49) (INPUT_MAPPING_TABLE k)
     = length (INPUT_MAPPING_TABLE k)"
  by (simp add: INPUT_MAPPING_TABLE_def)

text \<open>An event of the modifier sets the held flag to the event's state and queues nothing.\<close>

lemma onInput_modifier:
  "onInput k \<lparr>input_id = Button 49, input_pressed = p\<rparr> self = self\<lparr>mShiftHeld := p\<rparr>"
  by (simp add: onInput_def Let_def modifier_not_mapped)

text \<open>The chord played out, for key codes that fit a byte: modifier down, save down,
  modifier up, save down queues the load key and then the save key.\<close>

lemma onInput_chord_scenario:
  assumes "0 \<le> KEY_F6 k" and "KEY_F6 k < 256"
  shows "fold (onInput k)
      [\<lparr>input_id = Button 49, input_pressed = True\<rparr>,
       \<lparr>input_id = Button 82, input_pressed = True\<rparr>,
       \<lparr>input_id = Button 49, input_pressed = False\<rparr>,
       \<lparr>input_id = Button 82, input_pressed = True\<rparr>]
      \<lparr>mEventQueue = [], mShiftHeld = False\<rparr>
    = \<lparr>mEventQueue = [\<lparr>key = word_of_int (KEY_F9 k), pressed = True\<rparr>,
                      \<lparr>key = word_of_int (KEY_F6 k), pressed = True\<rparr>],
       mShiftHeld = False\<rparr>"
  using assms by (simp add: onInput_def Let_def INPUT_MAPPING_TABLE_def uint_word_of_int)



section \<open>The bounds of the converting blit\<close>

lemma i32_in_range: "is_i32 k \<Longrightarrow> i32 k = k"
  by (simp add: i32_def is_i32_def signed_take_bit_int_eq_self)

lemma store_all_in_bounds:
  "\<forall>(i, v) \<in> set stores. 0 \<le> i \<and> i < int (length buf) \<Longrightarrow>
   \<exists>buf'. store_all buf stores = Inr buf' \<and> length buf' = length buf"
proof (induction stores arbitrary: buf)
  case Nil
  then show ?case by simp
next
  case (Cons s stores)
  obtain i v where s: "s = (i, v)" by (cases s)
  from Cons.prems s have inside: "0 \<le> i \<and> i < int (length buf)" by simp
  from Cons.prems
  have "\<forall>(j, u) \<in> set stores. 0 \<le> j \<and> j < int (length (buf[nat i := v]))"
    by simp
  from Cons.IH [OF this] inside s show ?case by simp
qed

text \<open>Without overflow every store of the loops goes to a column left of the screen width
  and a row above the screen height.\<close>

lemma copyToScreen_stores_in_rectangle:
  assumes r: "is_i32 srcWidth" "is_i32 srcHeight" "is_i32 destX" "is_i32 destY"
    and nn: "0 \<le> destX" "0 \<le> destY"
    and no: "destX + srcWidth < 2 ^ 31" "destY + srcHeight < 2 ^ 31"
    and mem: "(i, v) \<in> set (copyToScreen_stores srcBuffer srcX srcY srcWidth srcHeight destX destY)"
  shows "\<exists>x y. 0 \<le> x \<and> destX + x < PUSH_SCREEN_WIDTH \<and> 0 \<le> y \<and> destY + y < PUSH_SCREEN_HEIGHT
      \<and> i = destX + x + (y + destY) * PUSH_SCREEN_STRIDE"
proof -
  define w where "w = (if i32 (destX + srcWidth) \<ge> PUSH_SCREEN_WIDTH
                       then i32 (PUSH_SCREEN_WIDTH - destX) else srcWidth)"
  define h where "h = (if i32 (destY + srcHeight) \<ge> PUSH_SCREEN_HEIGHT
                       then i32 (PUSH_SCREEN_HEIGHT - destY) else srcHeight)"
  have sw: "i32 (destX + srcWidth) = destX + srcWidth"
    using r nn no by (intro i32_in_range) (simp add: is_i32_def)
  have sh: "i32 (destY + srcHeight) = destY + srcHeight"
    using r nn no by (intro i32_in_range) (simp add: is_i32_def)
  have cw: "i32 (PUSH_SCREEN_WIDTH - destX) = PUSH_SCREEN_WIDTH - destX"
    using r nn by (intro i32_in_range) (simp add: is_i32_def PUSH_SCREEN_WIDTH_def)
  have ch: "i32 (PUSH_SCREEN_HEIGHT - destY) = PUSH_SCREEN_HEIGHT - destY"
    using r nn by (intro i32_in_range) (simp add: is_i32_def PUSH_SCREEN_HEIGHT_def)
  have wb: "destX + w \<le> PUSH_SCREEN_WIDTH"
    unfolding w_def sw cw by simp
  have hb: "destY + h \<le> PUSH_SCREEN_HEIGHT"
    unfolding h_def sh ch by simp
  from mem obtain x y where xy: "0 \<le> x" "x \<le> w - 1" "0 \<le> y" "y \<le> h - 1"
    and i: "i = i32 (i32 (destX + x) + i32 (i32 (y + destY) * PUSH_SCREEN_STRIDE))"
    unfolding copyToScreen_stores_def Let_def w_def [symmetric] h_def [symmetric]
    by auto
  have xb: "destX + x < 960" and yb: "y + destY < 160"
    using xy wb hb by (simp_all add: PUSH_SCREEN_WIDTH_def PUSH_SCREEN_HEIGHT_def)
  have e1: "i32 (destX + x) = destX + x"
    using xb xy nn by (intro i32_in_range) (simp add: is_i32_def)
  have e2: "i32 (y + destY) = y + destY"
    using yb xy nn by (intro i32_in_range) (simp add: is_i32_def)
  have e3: "i32 ((y + destY) * PUSH_SCREEN_STRIDE) = (y + destY) * PUSH_SCREEN_STRIDE"
    using yb xy nn by (intro i32_in_range) (simp add: is_i32_def PUSH_SCREEN_STRIDE_def)
  have e4: "i32 (destX + x + (y + destY) * PUSH_SCREEN_STRIDE)
      = destX + x + (y + destY) * PUSH_SCREEN_STRIDE"
    using xb yb xy nn by (intro i32_in_range) (simp add: is_i32_def PUSH_SCREEN_STRIDE_def)
  have "i = destX + x + (y + destY) * PUSH_SCREEN_STRIDE"
    unfolding i e1 e2 e3 e4 ..
  with xy xb yb show ?thesis
    by (intro exI [of _ x] exI [of _ y])
      (simp add: PUSH_SCREEN_WIDTH_def PUSH_SCREEN_HEIGHT_def add.commute)
qed

text \<open>
  Claim C9, as stated: for every call with \<open>destX \<ge> 0\<close> and \<open>destY \<ge> 0\<close> and arbitrary
  \<open>srcWidth\<close> and \<open>srcHeight\<close>, every index written is inside the screen buffer. It is not:
  with \<open>destX\<close> the largest \<^verbatim>\<open>int\<close> and \<open>srcWidth = 1\<close> the sum \<open>destX + srcWidth\<close> overflows,
  wraps to a negative number that passes the comparison with the screen width, nothing is
  clamped, and the one store of the loop goes to index 2147483647 of a buffer of 163840
  pixels.
\<close>

theorem copyToScreen_overflow_counterexample:
  "(0 :: int) \<le> 2147483647 \<and> length (mScreenBuffer display_ready) = 163840
   \<and> copyToScreen (\<lambda>offset. 0) 0 0 1 1 2147483647 0 display_ready
       = Inl (OutOfBoundsWrite 2147483647)"
  by (simp add: copyToScreen_def copyToScreen_stores_def display_ready_def i32_def
      PUSH_SCREEN_WIDTH_def PUSH_SCREEN_HEIGHT_def PUSH_SCREEN_STRIDE_def
      DOOMGENERIC_RESX_def Let_def upto.simps)

text \<open>
  Claim C9, amended. For every call with \<open>destX \<ge> 0\<close> and \<open>destY \<ge> 0\<close> in which neither
  \<open>destX + srcWidth\<close> nor \<open>destY + srcHeight\<close> overflows a 32-bit \<^verbatim>\<open>int\<close>, every index
  written lies inside the buffer of 1024 x 160 pixels, in a column left of the screen width
  960; when the buffer has that size no store falls outside it, and the call returns the
  object with a screen buffer of the same size.
\<close>

theorem copyToScreen_in_bounds:
  assumes r: "is_i32 srcWidth" "is_i32 srcHeight" "is_i32 destX" "is_i32 destY"
    and nn: "0 \<le> destX" "0 \<le> destY"
    and no: "destX + srcWidth < 2 ^ 31" "destY + srcHeight < 2 ^ 31"
    and len: "int (length (mScreenBuffer self)) = PUSH_SCREEN_STRIDE * PUSH_SCREEN_HEIGHT"
  shows "(\<forall>(i, v) \<in> set (copyToScreen_stores srcBuffer srcX srcY srcWidth srcHeight destX destY).
            0 \<le> i \<and> i < PUSH_SCREEN_STRIDE * PUSH_SCREEN_HEIGHT
            \<and> i mod PUSH_SCREEN_STRIDE < PUSH_SCREEN_WIDTH)
       \<and> (\<exists>buf. copyToScreen srcBuffer srcX srcY srcWidth srcHeight destX destY self
                  = Inr (self\<lparr>mScreenBuffer := buf\<rparr>)
               \<and> length buf = length (mScreenBuffer self))"
proof -
  have b: "\<forall>(i, v) \<in> set (copyToScreen_stores srcBuffer srcX srcY srcWidth srcHeight destX destY).
            0 \<le> i \<and> i < PUSH_SCREEN_STRIDE * PUSH_SCREEN_HEIGHT
            \<and> i mod PUSH_SCREEN_STRIDE < PUSH_SCREEN_WIDTH"
  proof (clarify)
    fix i v
    assume "(i, v) \<in> set (copyToScreen_stores srcBuffer srcX srcY srcWidth srcHeight destX destY)"
    from copyToScreen_stores_in_rectangle [OF r nn no this] obtain x y where
      xy: "0 \<le> x" "destX + x < PUSH_SCREEN_WIDTH" "0 \<le> y" "destY + y < PUSH_SCREEN_HEIGHT"
      and i: "i = destX + x + (y + destY) * PUSH_SCREEN_STRIDE"
      by blast
    have "i mod PUSH_SCREEN_STRIDE = (destX + x) mod PUSH_SCREEN_STRIDE"
      unfolding i by simp
    also have "\<dots> = destX + x"
      using xy nn by (simp add: PUSH_SCREEN_STRIDE_def PUSH_SCREEN_WIDTH_def)
    finally have "i mod PUSH_SCREEN_STRIDE = destX + x" .
    with xy nn i show "0 \<le> i \<and> i < PUSH_SCREEN_STRIDE * PUSH_SCREEN_HEIGHT
            \<and> i mod PUSH_SCREEN_STRIDE < PUSH_SCREEN_WIDTH"
      by (simp add: PUSH_SCREEN_STRIDE_def PUSH_SCREEN_WIDTH_def PUSH_SCREEN_HEIGHT_def)
  qed
  then have "\<forall>(i, v) \<in> set (copyToScreen_stores srcBuffer srcX srcY srcWidth srcHeight destX destY).
            0 \<le> i \<and> i < int (length (mScreenBuffer self))"
    unfolding len by blast
  from store_all_in_bounds [OF this] obtain buf where
    "store_all (mScreenBuffer self)
       (copyToScreen_stores srcBuffer srcX srcY srcWidth srcHeight destX destY) = Inr buf"
    "length buf = length (mScreenBuffer self)"
    by blast
  then have "copyToScreen srcBuffer srcX srcY srcWidth srcHeight destX destY self
                 = Inr (self\<lparr>mScreenBuffer := buf\<rparr>)
             \<and> length buf = length (mScreenBuffer self)"
    by (simp add: copyToScreen_def)
  with b show ?thesis by blast
qed

theorem copyToScreen_in_bounds_witness:
  "\<exists>buf. copyToScreen (\<lambda>offset. 0) 0 160 320 40 640 0 display_ready
            = Inr (display_ready\<lparr>mScreenBuffer := buf\<rparr>)
        \<and> length buf = 163840"
  using copyToScreen_in_bounds [of 320 40 640 0 display_ready "\<lambda>offset. 0" 0 160]
  by (simp add: is_i32_def display_ready_def PUSH_SCREEN_STRIDE_def PUSH_SCREEN_HEIGHT_def)

end
